theory Spec2Isabelle
  imports Main "HOL-Library.Word"
begin

section \<open>The credentials headers of the ESP32 sensor firmware\<close>

text \<open>
  The repository holds two variants of \<^verbatim>\<open>credentials.h\<close>:
  \<^item> \<^verbatim>\<open>src/Arduino/ESP32_Sensor/credentials.h\<close> (called the Arduino variant below),
  \<^item> \<^verbatim>\<open>src/Sensor/Arduino/ESP32_Sensor/credentials.h\<close> (the Sensor variant).

  Each one declares the same six file-scope constants and nothing else: no function,
  no statement, no preprocessor check besides the include guard.
\<close>

subsection \<open>Data model\<close>

text \<open>
  The target is the ESP32, where \<^verbatim>\<open>int\<close> and \<^verbatim>\<open>unsigned long\<close> are both 32 bits wide.
  An \<^verbatim>\<open>unsigned long\<close> is a \<^typ>\<open>32 word\<close> in its unsigned reading; an \<^verbatim>\<open>int\<close> is a
  \<^typ>\<open>32 word\<close> read in two's complement (\<^const>\<open>sint\<close>).
\<close>

type_synonym c_int = "32 word"
type_synonym c_unsigned_long = "32 word"

text \<open>
  \<^verbatim>\<open>sensorId\<close> is declared \<^verbatim>\<open>const int\<close> in the Arduino variant and \<^verbatim>\<open>const char*\<close>
  in the Sensor variant. The tag records which C++ type the declaration has.
\<close>

datatype sensor_id = IntId c_int | StrId string

fun is_IntId :: "sensor_id \<Rightarrow> bool" where
  "is_IntId (IntId n) = True"
| "is_IntId (StrId s) = False"

fun is_StrId :: "sensor_id \<Rightarrow> bool" where
  "is_StrId (IntId n) = False"
| "is_StrId (StrId s) = True"

text \<open>
  The six constants of a header, under the names of the source. The specification calls
  them \<open>networkName\<close> (\<^verbatim>\<open>ssid\<close>), \<open>networkSecret\<close> (\<^verbatim>\<open>password\<close>), \<open>serverBaseUrl\<close>,
  \<open>sensorIdentifier\<close> (\<^verbatim>\<open>sensorId\<close>), \<open>sampleIntervalMs\<close> (\<^verbatim>\<open>sampleInterval\<close>) and
  \<open>connectionTimeoutMs\<close> (\<^verbatim>\<open>connectionTimeout\<close>).
\<close>

record credentials =
  ssid :: string
  password :: string
  serverBaseUrl :: string
  sensorId :: sensor_id
  sampleInterval :: c_unsigned_long
  connectionTimeout :: c_unsigned_long

subsection \<open>The two headers\<close>

text \<open>\<^verbatim>\<open>src/Arduino/ESP32_Sensor/credentials.h\<close>, lines 10 to 26.\<close>

definition credentials_Arduino :: credentials where
  "credentials_Arduino =
     \<lparr> ssid = ''A55'',
       password = ''mukava123'',
       serverBaseUrl = ''http://192.168.1.11:8000'',
       sensorId = IntId 1,
       sampleInterval = 10000,
       connectionTimeout = 15000 \<rparr>"

text \<open>\<^verbatim>\<open>src/Sensor/Arduino/ESP32_Sensor/credentials.h\<close>, lines 6 to 20.\<close>

definition credentials_Sensor :: credentials where
  "credentials_Sensor =
     \<lparr> ssid = ''servo'',
       password = ''servoapi24'',
       serverBaseUrl = ''http://127.0.0.1:8000'',
       sensorId = StrId ''ESP32_001'',
       sampleInterval = 5000,
       connectionTimeout = 10000 \<rparr>"

subsection \<open>Well-formed URIs\<close>

text \<open>
  The source has no URI parser: \<^verbatim>\<open>serverBaseUrl\<close> is a string literal handed to whoever
  includes the header. The check below is the yardstick the URLs are measured against.
  It follows the generic syntax of RFC 3986 for the shape
  \<^verbatim>\<open>scheme "://" host [ ":" port ] path-abempty [ "?" query ] [ "#" fragment ]\<close>,
  with the host a registered name (which covers dotted IPv4 addresses), and without
  user information, percent-encoding and bracketed IP literals. It is stricter than
  the RFC, never laxer: a string it accepts is a URI of the RFC with a non-empty
  scheme and a non-empty host.
\<close>

definition is_alpha :: "char \<Rightarrow> bool" where
  "is_alpha c =
     (let n = (of_char c :: nat) in (65 \<le> n \<and> n \<le> 90) \<or> (97 \<le> n \<and> n \<le> 122))"

definition is_digit :: "char \<Rightarrow> bool" where
  "is_digit c = (let n = (of_char c :: nat) in 48 \<le> n \<and> n \<le> 57)"

definition is_scheme_char :: "char \<Rightarrow> bool" where
  "is_scheme_char c = (is_alpha c \<or> is_digit c \<or> c \<in> set ''+-.'')"

definition is_unreserved :: "char \<Rightarrow> bool" where
  "is_unreserved c = (is_alpha c \<or> is_digit c \<or> c \<in> set ''-._~'')"

text \<open>The sub-delimiters; character 39 is the apostrophe.\<close>

definition is_sub_delim :: "char \<Rightarrow> bool" where
  "is_sub_delim c = (c \<in> set ''!$&()*+,;='' \<or> (of_char c :: nat) = 39)"

definition is_reg_name_char :: "char \<Rightarrow> bool" where
  "is_reg_name_char c = (is_unreserved c \<or> is_sub_delim c)"

definition is_pchar :: "char \<Rightarrow> bool" where
  "is_pchar c = (is_unreserved c \<or> is_sub_delim c \<or> c \<in> set '':@'')"

definition is_path_char :: "char \<Rightarrow> bool" where
  "is_path_char c = (is_pchar c \<or> c = CHR ''/'')"

definition is_query_char :: "char \<Rightarrow> bool" where
  "is_query_char c = (is_pchar c \<or> c \<in> set ''/?'')"

definition is_colon :: "char \<Rightarrow> bool" where
  "is_colon c = (c = CHR '':'')"

definition is_hash :: "char \<Rightarrow> bool" where
  "is_hash c = (c = CHR ''#'')"

definition is_path_end :: "char \<Rightarrow> bool" where
  "is_path_end c = (c \<in> set ''?#'')"

definition is_authority_end :: "char \<Rightarrow> bool" where
  "is_authority_end c = (c \<in> set ''/?#'')"

record uri =
  scheme :: string
  host :: string
  port :: string
  remainder :: string

definition well_formed_scheme :: "string \<Rightarrow> bool" where
  "well_formed_scheme s =
     (case s of [] \<Rightarrow> False | c # cs \<Rightarrow> is_alpha c \<and> list_all is_scheme_char cs)"

definition well_formed_host :: "string \<Rightarrow> bool" where
  "well_formed_host h = (h \<noteq> [] \<and> list_all is_reg_name_char h)"

text \<open>
  What follows the authority: a path that is empty or starts with a slash, then an
  optional query after \<^verbatim>\<open>?\<close>, then an optional fragment after \<^verbatim>\<open>#\<close>.
\<close>

definition well_formed_remainder :: "string \<Rightarrow> bool" where
  "well_formed_remainder t =
     (let p = takeWhile (Not \<circ> is_path_end) t;
          r = dropWhile (Not \<circ> is_path_end) t;
          q = takeWhile (Not \<circ> is_hash) r;
          f = dropWhile (Not \<circ> is_hash) r
      in list_all is_path_char p
         \<and> list_all is_query_char (drop 1 q)
         \<and> list_all is_query_char (drop 1 f))"

definition parse_authority :: "string \<Rightarrow> (string \<times> string) option" where
  "parse_authority a =
     (let h = takeWhile (Not \<circ> is_colon) a;
          r = dropWhile (Not \<circ> is_colon) a;
          p = drop 1 r
      in if well_formed_host h \<and> list_all is_digit p then Some (h, p) else None)"

definition parse_uri :: "string \<Rightarrow> uri option" where
  "parse_uri s =
     (let sch = takeWhile (Not \<circ> is_colon) s;
          r = dropWhile (Not \<circ> is_colon) s;
          r' = drop 3 r;
          a = takeWhile (Not \<circ> is_authority_end) r';
          t = dropWhile (Not \<circ> is_authority_end) r'
      in if well_formed_scheme sch \<and> take 3 r = ''://'' \<and> well_formed_remainder t
         then (case parse_authority a of
                 None \<Rightarrow> None
               | Some (h, p) \<Rightarrow>
                   Some \<lparr> scheme = sch, host = h, port = p, remainder = t \<rparr>)
         else None)"

subsection \<open>Loading the configuration\<close>

text \<open>
  Neither header defines a loading operation, a check of the values or an error type:
  the source is the twelve declarations above. The operation and its failure are the
  specification's, and the four definitions below are written from its sentences.
\<close>

text \<open>
  Modelled from the spec: the error type, missing from the source. Section 7 of the
  specification: \<open>a single kind, ConfigurationError, signaling a malformed or missing
  constant\<close>.
\<close>

datatype error = ConfigurationError

text \<open>
  Modelled from the spec: the invariants on the values, which the source does not
  check. Section 3 of the specification: \<open>sampleIntervalMs and connectionTimeoutMs must
  be positive\<close> and \<open>serverBaseUrl must be a well-formed URI with scheme and host\<close>.
\<close>

definition invariants_hold :: "credentials \<Rightarrow> bool" where
  "invariants_hold c =
     (0 < sampleInterval c
      \<and> 0 < connectionTimeout c
      \<and> (case parse_uri (serverBaseUrl c) of None \<Rightarrow> False | Some u \<Rightarrow> True))"

text \<open>
  Modelled from the spec: the test for a missing constant, which the source does not
  make. Section 4.1 of the specification gives \<open>empty SSID\<close> as a malformed constant,
  section 7 speaks of \<open>a missing credential\<close>, section 8 asks that \<open>networkName and
  networkSecret are non-empty text\<close>, and scenario 2 of section 8 has the empty-string
  sensor identifier signal a ConfigurationError \<open>for missing identifier\<close>. An integer
  identifier is never missing.
\<close>

definition constants_present :: "credentials \<Rightarrow> bool" where
  "constants_present c = (ssid c \<noteq> [] \<and> password c \<noteq> [] \<and> sensorId c \<noteq> StrId [])"

text \<open>
  Modelled from the spec: the operation \<open>load()\<close>, missing from the source. Section 4.1
  of the specification: it \<open>returns the compiled-in configuration\<close> and \<open>fails with a
  ConfigurationError if any invariant in section 3 is violated\<close>; by section 7 the same
  error signals a missing constant.
\<close>

definition load :: "credentials \<Rightarrow> error + credentials" where
  "load c =
     (if invariants_hold c \<and> constants_present c then Inr c else Inl ConfigurationError)"

section \<open>Properties\<close>

text \<open>
  Claim C1. For the Arduino variant, loading returns exactly the record with
  network name A55, network secret mukava123, server base URL
  http://192.168.1.11:8000, sensor identifier the integer 1, sample interval 10000 ms
  and connection timeout 15000 ms, and no error.
\<close>

theorem load_Arduino:
  "load credentials_Arduino =
     Inr \<lparr> ssid = ''A55'',
           password = ''mukava123'',
           serverBaseUrl = ''http://192.168.1.11:8000'',
           sensorId = IntId 1,
           sampleInterval = 10000,
           connectionTimeout = 15000 \<rparr>"
proof -
  have u: "parse_uri ''http://192.168.1.11:8000'' =
      Some \<lparr> scheme = ''http'', host = ''192.168.1.11'', port = ''8000'', remainder = [] \<rparr>"
    by code_simp
  show ?thesis
    by (simp add: load_def invariants_hold_def constants_present_def credentials_Arduino_def
          u word_greater_zero_iff)
qed

text \<open>
  Claim C2. The two variants disagree on the representation of the sensor identifier:
  the Arduino variant declares a numeric (integer) identifier, the Sensor variant a
  string label, so the two configuration records differ at that field, and differ
  already in the type of the declaration.
\<close>

theorem sensorId_representation_differs:
  "sensorId credentials_Arduino = IntId 1
   \<and> sensorId credentials_Sensor = StrId ''ESP32_001''
   \<and> is_IntId (sensorId credentials_Arduino)
   \<and> \<not> is_StrId (sensorId credentials_Arduino)
   \<and> is_StrId (sensorId credentials_Sensor)
   \<and> \<not> is_IntId (sensorId credentials_Sensor)
   \<and> sensorId credentials_Arduino \<noteq> sensorId credentials_Sensor
   \<and> credentials_Arduino \<noteq> credentials_Sensor"
  by (simp add: credentials_Arduino_def credentials_Sensor_def)

text \<open>
  Claim C3. In both headers the sample interval and the connection timeout are
  strictly positive (as unsigned 32-bit values, and so as numbers of milliseconds).
\<close>

theorem intervals_positive:
  "0 < sampleInterval credentials_Arduino
   \<and> 0 < connectionTimeout credentials_Arduino
   \<and> 0 < sampleInterval credentials_Sensor
   \<and> 0 < connectionTimeout credentials_Sensor
   \<and> unat (sampleInterval credentials_Arduino) = 10000
   \<and> unat (connectionTimeout credentials_Arduino) = 15000
   \<and> unat (sampleInterval credentials_Sensor) = 5000
   \<and> unat (connectionTimeout credentials_Sensor) = 10000"
  by (simp add: credentials_Arduino_def credentials_Sensor_def word_greater_zero_iff)

text \<open>
  Claim C5. In both headers the network name (\<^verbatim>\<open>ssid\<close>) and the network secret
  (\<^verbatim>\<open>password\<close>) are non-empty strings.
\<close>

theorem ssid_password_nonempty:
  "ssid credentials_Arduino \<noteq> []
   \<and> password credentials_Arduino \<noteq> []
   \<and> ssid credentials_Sensor \<noteq> []
   \<and> password credentials_Sensor \<noteq> []"
  by (simp add: credentials_Arduino_def credentials_Sensor_def)

text \<open>
  Claim C10. For the Sensor variant, loading returns exactly the record with network
  name servo, network secret servoapi24, server base URL http://127.0.0.1:8000,
  sensor identifier the string ESP32_001, sample interval 5000 ms and connection
  timeout 10000 ms; and the two variants differ in the value of every one of the six
  fields.
\<close>

theorem load_Sensor:
  "load credentials_Sensor =
     Inr \<lparr> ssid = ''servo'',
           password = ''servoapi24'',
           serverBaseUrl = ''http://127.0.0.1:8000'',
           sensorId = StrId ''ESP32_001'',
           sampleInterval = 5000,
           connectionTimeout = 10000 \<rparr>
   \<and> ssid credentials_Sensor \<noteq> ssid credentials_Arduino
   \<and> password credentials_Sensor \<noteq> password credentials_Arduino
   \<and> serverBaseUrl credentials_Sensor \<noteq> serverBaseUrl credentials_Arduino
   \<and> sensorId credentials_Sensor \<noteq> sensorId credentials_Arduino
   \<and> sampleInterval credentials_Sensor \<noteq> sampleInterval credentials_Arduino
   \<and> connectionTimeout credentials_Sensor \<noteq> connectionTimeout credentials_Arduino"
proof -
  have u: "parse_uri ''http://127.0.0.1:8000'' =
      Some \<lparr> scheme = ''http'', host = ''127.0.0.1'', port = ''8000'', remainder = [] \<rparr>"
    by code_simp
  show ?thesis
    by (simp add: load_def invariants_hold_def constants_present_def credentials_Arduino_def
          credentials_Sensor_def u word_greater_zero_iff)
qed

text \<open>
  Claim C4. In both headers, \<^verbatim>\<open>serverBaseUrl\<close> parses as a well-formed URI with a
  non-empty scheme and a non-empty host: http://192.168.1.11:8000 has scheme http,
  host 192.168.1.11 and port 8000; http://127.0.0.1:8000 has scheme http, host
  127.0.0.1 and port 8000.
\<close>

theorem serverBaseUrl_well_formed:
  "parse_uri (serverBaseUrl credentials_Arduino) =
     Some \<lparr> scheme = ''http'', host = ''192.168.1.11'', port = ''8000'', remainder = [] \<rparr>
   \<and> parse_uri (serverBaseUrl credentials_Sensor) =
     Some \<lparr> scheme = ''http'', host = ''127.0.0.1'', port = ''8000'', remainder = [] \<rparr>
   \<and> scheme (the (parse_uri (serverBaseUrl credentials_Arduino))) \<noteq> []
   \<and> host (the (parse_uri (serverBaseUrl credentials_Arduino))) \<noteq> []
   \<and> scheme (the (parse_uri (serverBaseUrl credentials_Sensor))) \<noteq> []
   \<and> host (the (parse_uri (serverBaseUrl credentials_Sensor))) \<noteq> []"
proof -
  have a: "parse_uri ''http://192.168.1.11:8000'' =
      Some \<lparr> scheme = ''http'', host = ''192.168.1.11'', port = ''8000'', remainder = [] \<rparr>"
    by code_simp
  have s: "parse_uri ''http://127.0.0.1:8000'' =
      Some \<lparr> scheme = ''http'', host = ''127.0.0.1'', port = ''8000'', remainder = [] \<rparr>"
    by code_simp
  show ?thesis
    by (simp add: credentials_Arduino_def credentials_Sensor_def a s)
qed

text \<open>
  Claim C6. If the configuration has sample interval 0, then loading signals a
  ConfigurationError rather than returning a record, whatever the other five values.
\<close>

theorem load_rejects_zero_sampleInterval:
  "sampleInterval c = 0 \<Longrightarrow> load c = Inl ConfigurationError \<and> load c \<noteq> Inr c"
  by (simp add: load_def invariants_hold_def)

theorem load_rejects_zero_sampleInterval_witness:
  "sampleInterval (credentials_Arduino\<lparr>sampleInterval := 0\<rparr>) = 0
   \<and> load (credentials_Arduino\<lparr>sampleInterval := 0\<rparr>) = Inl ConfigurationError"
  using load_rejects_zero_sampleInterval [of "credentials_Arduino\<lparr>sampleInterval := 0\<rparr>"]
  by simp

text \<open>
  Claim C7. If the configuration has the empty string as sensor identifier, then
  loading signals a ConfigurationError (the identifier is missing) rather than
  returning a record, whatever the other five values.
\<close>

theorem load_rejects_empty_sensorId:
  "sensorId c = StrId [] \<Longrightarrow> load c = Inl ConfigurationError \<and> load c \<noteq> Inr c"
  by (simp add: load_def constants_present_def)

theorem load_rejects_empty_sensorId_witness:
  "sensorId (credentials_Sensor\<lparr>sensorId := StrId []\<rparr>) = StrId []
   \<and> load (credentials_Sensor\<lparr>sensorId := StrId []\<rparr>) = Inl ConfigurationError"
  using load_rejects_empty_sensorId [of "credentials_Sensor\<lparr>sensorId := StrId []\<rparr>"]
  by simp

end
